theory Spec2Isabelle
  imports Main "HOL-Library.Word"
begin

section \<open>Routing descriptors\<close>

text \<open>
  \<^verbatim>\<open>enum class QueueType\<close> and \<^verbatim>\<open>enum class Operation\<close> of
  \<^verbatim>\<open>pifo_pipeline_stage.h\<close>.
\<close>

datatype QueueType = PRIORITY_QUEUE | CALENDAR_QUEUE

datatype Operation = ENQ | DEQ | TRANSMIT

text \<open>\<^verbatim>\<open>struct PIFOArguments\<close>: one destination address; \<^verbatim>\<open>uint32_t\<close> is a 32-bit word.\<close>

record PIFOArguments =
  stage_id :: "32 word"
  q_type :: QueueType
  queue_id :: "32 word"

text \<open>\<^verbatim>\<open>struct NextHop\<close>: an operation and the vector of its destinations.\<close>

record NextHop =
  op :: Operation
  pifo_arguments :: "PIFOArguments list"

section \<open>Exceptions\<close>

text \<open>
  The exceptions that can leave the three public methods of a stage.
  \<^verbatim>\<open>std::vector::at\<close> and \<^verbatim>\<open>std::map::at\<close> both throw
  \<^verbatim>\<open>std::out_of_range\<close>, so one constructor stands for the error of a
  \<^verbatim>\<open>queue_id\<close> beyond its bank and for the error of a field value with no
  entry in the look-up table. \<open>missing_field\<close> is the condition of a packet that lacks the
  field read from it (see \<open>packet_field\<close>). \<open>queue_exn\<close> is any exception that a queue's own
  \<^verbatim>\<open>enq\<close> or \<^verbatim>\<open>deq\<close> raises. Calling an empty \<^verbatim>\<open>std::function\<close>
  throws \<^verbatim>\<open>std::bad_function_call\<close>, and \<open>prio_exn\<close> is any exception that the target
  of the priority function raises.
\<close>

datatype exn =
    std_out_of_range
  | std_bad_function_call
  | missing_field
  | queue_exn string
  | prio_exn string

section \<open>Packets\<close>

text \<open>
  Modelled from the spec: \<^verbatim>\<open>PIFOPacket\<close> and its \<^verbatim>\<open>operator()\<close>
  (declared in \<^verbatim>\<open>field_container.h\<close> and \<^verbatim>\<open>convenience_typedefs.h\<close>,
  which are not among the sources). A packet is an entity that supports the lookup of a named field
  by a string key; the source assumes that all fields are ints. Reading a field that the packet does
  not expose fails with a "missing field" condition.
\<close>

type_synonym PIFOPacket = "string \<rightharpoonup> 32 word"

definition packet_field :: "PIFOPacket \<Rightarrow> string \<Rightarrow> exn + 32 word" where
  "packet_field packet field_name =
     (case packet field_name of
        None \<Rightarrow> Inl missing_field
      | Some v \<Rightarrow> Inr v)"

section \<open>Look-up table\<close>

text \<open>
  \<^verbatim>\<open>class LookUpTable\<close>: a field name and a \<^verbatim>\<open>std::map<int, NextHop>\<close>.
  Both members are \<^verbatim>\<open>const\<close>. (A name cannot end in an underscore here, so the members
  \<^verbatim>\<open>look_up_field_name_\<close>, \<^verbatim>\<open>priority_queue_bank_\<close> and the others lose theirs.)
\<close>

record LookUpTable =
  look_up_field_name :: string
  look_up_table :: "32 word \<rightharpoonup> NextHop"

text \<open>
  The constructor builds the map from an initializer list; of two entries with the same key
  \<^verbatim>\<open>std::map\<close> keeps the first, as \<open>map_of\<close> does.
\<close>

definition LookUpTable_ctor :: "string \<Rightarrow> (32 word \<times> NextHop) list \<Rightarrow> LookUpTable" where
  "LookUpTable_ctor lut_field_name lut_init =
     \<lparr>look_up_field_name = lut_field_name, look_up_table = map_of lut_init\<rparr>"

text \<open>\<^verbatim>\<open>std::map::at\<close>: the mapped value, or \<^verbatim>\<open>std::out_of_range\<close>.\<close>

definition map_at :: "('k \<rightharpoonup> 'v) \<Rightarrow> 'k \<Rightarrow> exn + 'v" where
  "map_at m k = (case m k of None \<Rightarrow> Inl std_out_of_range | Some v \<Rightarrow> Inr v)"

text \<open>
  \<^verbatim>\<open>auto lookup(const PIFOPacket & packet) const
  { return look_up_table_.at(packet(look_up_field_name_)); }\<close>
  The field is read first; its failure leaves the method before the table is consulted.
\<close>

definition lookup :: "LookUpTable \<Rightarrow> PIFOPacket \<Rightarrow> exn + NextHop" where
  "lookup lut packet =
     (case packet_field packet (look_up_field_name lut) of
        Inl e \<Rightarrow> Inl e
      | Inr v \<Rightarrow> map_at (look_up_table lut) v)"

section \<open>Queue disciplines\<close>

text \<open>
  \<^verbatim>\<open>PriorityQueue\<close> and \<^verbatim>\<open>CalendarQueue\<close> are declared in
  \<^verbatim>\<open>priority_queue.h\<close> and \<^verbatim>\<open>calendar_queue.h\<close>, which are not among the
  sources; the stage only calls their default constructor, \<^verbatim>\<open>enq(packet, prio, tick)\<close>
  and \<^verbatim>\<open>deq(tick)\<close>. They are parameters of the model: \<open>'pq\<close> and \<open>'cq\<close> are the
  states of one queue of either discipline, and each method maps the state of the queue it is called
  on to its outcome (a value or an exception) and the state it leaves behind.
\<close>

record ('pq, 'cq, 'prio) queue_ops =
  PriorityQueue_new :: "'pq"
  PriorityQueue_enq :: "PIFOPacket \<Rightarrow> 'prio \<Rightarrow> 32 word \<Rightarrow> 'pq \<Rightarrow> (exn + unit) \<times> 'pq"
  PriorityQueue_deq :: "32 word \<Rightarrow> 'pq \<Rightarrow> (exn + PIFOPacket option) \<times> 'pq"
  CalendarQueue_new :: "'cq"
  CalendarQueue_enq :: "PIFOPacket \<Rightarrow> 'prio \<Rightarrow> 32 word \<Rightarrow> 'cq \<Rightarrow> (exn + unit) \<times> 'cq"
  CalendarQueue_deq :: "32 word \<Rightarrow> 'cq \<Rightarrow> (exn + PIFOPacket option) \<times> 'cq"

section \<open>Pipeline stage\<close>

text \<open>
  \<^verbatim>\<open>class PIFOPipelineStage\<close>: the two banks, the look-up table and the priority
  function. \<^verbatim>\<open>priority_t\<close> is the type parameter \<open>'prio\<close>. The priority function is a
  \<^verbatim>\<open>std::function<priority_t(PIFOPacket)>\<close>: it is empty (\<open>None\<close>) or holds a target,
  a callable that gets a copy of the packet and returns a priority or throws. Whatever state the
  target may read or write besides is the environment \<open>'env\<close>, threaded through each call so that
  an evaluation can be observed (a pure function leaves the environment as it is). The constructor
  stores the function it is given without looking at it.
\<close>

record ('pq, 'cq, 'prio, 'env) PIFOPipelineStage =
  priority_queue_bank :: "'pq list"
  calendar_queue_bank :: "'cq list"
  next_hop_lut :: LookUpTable
  prio_computer :: "(PIFOPacket \<Rightarrow> 'env \<Rightarrow> (exn + 'prio) \<times> 'env) option"

text \<open>
  The constructor: each bank is a vector of default-constructed queues whose length is the
  \<^verbatim>\<open>uint32_t\<close> count given.
\<close>

definition PIFOPipelineStage_ctor ::
  "('pq, 'cq, 'prio) queue_ops \<Rightarrow> 32 word \<Rightarrow> 32 word \<Rightarrow> string \<Rightarrow> (32 word \<times> NextHop) list \<Rightarrow>
   (PIFOPacket \<Rightarrow> 'env \<Rightarrow> (exn + 'prio) \<times> 'env) option \<Rightarrow>
   ('pq, 'cq, 'prio, 'env) PIFOPipelineStage" where
  "PIFOPipelineStage_ctor ops num_prio_queues num_cal_queues lut_field_name lut_initializer
       t_prio_computer =
     \<lparr>priority_queue_bank = replicate (unat num_prio_queues) (PriorityQueue_new ops),
      calendar_queue_bank = replicate (unat num_cal_queues) (CalendarQueue_new ops),
      next_hop_lut = LookUpTable_ctor lut_field_name lut_initializer,
      prio_computer = t_prio_computer\<rparr>"

text \<open>\<^verbatim>\<open>std::vector::at\<close>: the element at the index, or \<^verbatim>\<open>std::out_of_range\<close>.\<close>

definition vector_at :: "'a list \<Rightarrow> 32 word \<Rightarrow> exn + 'a" where
  "vector_at v n = (if unat n < length v then Inr (v ! unat n) else Inl std_out_of_range)"

text \<open>
  \<^verbatim>\<open>std::function::operator()\<close>: an empty function throws
  \<^verbatim>\<open>std::bad_function_call\<close>; otherwise the target is called.
\<close>

definition call_prio_computer ::
  "(PIFOPacket \<Rightarrow> 'env \<Rightarrow> (exn + 'prio) \<times> 'env) option \<Rightarrow> PIFOPacket \<Rightarrow> 'env \<Rightarrow>
   (exn + 'prio) \<times> 'env" where
  "call_prio_computer f packet env =
     (case f of
        None \<Rightarrow> (Inl std_bad_function_call, env)
      | Some target \<Rightarrow> target packet env)"

text \<open>
  \<^verbatim>\<open>void enq(q_type, queue_id, packet, tick)\<close>. The priority is computed first
  (\<^verbatim>\<open>const auto prio = prio_computer_(packet);\<close>), and an exception of that call leaves
  the method there. Then the bank is chosen and indexed with \<^verbatim>\<open>at\<close>, and the queue found
  there is changed in place by its own \<^verbatim>\<open>enq\<close>. The result is the outcome, the stage and
  the environment after the call. (The parameters are \<open>qtype\<close> and \<open>qid\<close> here, since \<open>q_type\<close>
  and \<open>queue_id\<close> are the fields of \<open>PIFOArguments\<close>.)
\<close>

definition enq ::
  "('pq, 'cq, 'prio) queue_ops \<Rightarrow> ('pq, 'cq, 'prio, 'env) PIFOPipelineStage \<Rightarrow> QueueType \<Rightarrow>
   32 word \<Rightarrow> PIFOPacket \<Rightarrow> 32 word \<Rightarrow> 'env \<Rightarrow>
   (exn + unit) \<times> ('pq, 'cq, 'prio, 'env) PIFOPipelineStage \<times> 'env" where
  "enq ops st qtype qid packet tick env =
     (case call_prio_computer (prio_computer st) packet env of
        (Inl e, env') \<Rightarrow> (Inl e, st, env')
      | (Inr prio, env') \<Rightarrow>
          if qtype = PRIORITY_QUEUE then
            (case vector_at (priority_queue_bank st) qid of
               Inl e \<Rightarrow> (Inl e, st, env')
             | Inr q \<Rightarrow>
                 (case PriorityQueue_enq ops packet prio tick q of (r, q') \<Rightarrow>
                    (r, st\<lparr>priority_queue_bank := (priority_queue_bank st)[unat qid := q']\<rparr>,
                     env')))
          else
            (case vector_at (calendar_queue_bank st) qid of
               Inl e \<Rightarrow> (Inl e, st, env')
             | Inr q \<Rightarrow>
                 (case CalendarQueue_enq ops packet prio tick q of (r, q') \<Rightarrow>
                    (r, st\<lparr>calendar_queue_bank := (calendar_queue_bank st)[unat qid := q']\<rparr>,
                     env'))))"

text \<open>
  \<^verbatim>\<open>Optional<PIFOPacket> deq(q_type, queue_id, tick)\<close>: the bank is chosen and indexed
  with \<^verbatim>\<open>at\<close>, and the result of the queue's own \<^verbatim>\<open>deq\<close> is returned.
\<close>

definition deq ::
  "('pq, 'cq, 'prio) queue_ops \<Rightarrow> ('pq, 'cq, 'prio, 'env) PIFOPipelineStage \<Rightarrow> QueueType \<Rightarrow>
   32 word \<Rightarrow> 32 word \<Rightarrow>
   (exn + PIFOPacket option) \<times> ('pq, 'cq, 'prio, 'env) PIFOPipelineStage" where
  "deq ops st qtype qid tick =
     (if qtype = PRIORITY_QUEUE then
        (case vector_at (priority_queue_bank st) qid of
           Inl e \<Rightarrow> (Inl e, st)
         | Inr q \<Rightarrow>
             (case PriorityQueue_deq ops tick q of (r, q') \<Rightarrow>
                (r, st\<lparr>priority_queue_bank := (priority_queue_bank st)[unat qid := q']\<rparr>)))
      else
        (case vector_at (calendar_queue_bank st) qid of
           Inl e \<Rightarrow> (Inl e, st)
         | Inr q \<Rightarrow>
             (case CalendarQueue_deq ops tick q of (r, q') \<Rightarrow>
                (r, st\<lparr>calendar_queue_bank := (calendar_queue_bank st)[unat qid := q']\<rparr>))))"

text \<open>
  \<^verbatim>\<open>auto find_next_hop(const PIFOPacket & packet) const
  { return next_hop_lut_.lookup(packet); }\<close>
\<close>

definition find_next_hop ::
  "('pq, 'cq, 'prio, 'env) PIFOPipelineStage \<Rightarrow> PIFOPacket \<Rightarrow> exn + NextHop" where
  "find_next_hop st packet = lookup (next_hop_lut st) packet"

section \<open>Routing as calls on objects\<close>

text \<open>
  \<open>lookup\<close> and \<open>find_next_hop\<close> above give the value of a call. Here are the same two methods
  with the objects they work on made explicit, as \<open>enq\<close> and \<open>deq\<close> have them: each operation
  gets the object it is called on, and the packet behind the reference where it has one, and hands
  them back as it leaves them, next to its outcome.
\<close>

text \<open>
  Modelled from the spec: the \<^verbatim>\<open>operator()\<close> of \<^verbatim>\<open>PIFOPacket\<close> on a
  \<^verbatim>\<open>const\<close> packet (\<^verbatim>\<open>field_container.h\<close> is not among the sources). The
  packet is immutable from the core's point of view: the field is read, and the packet stays as it is.
\<close>

definition PIFOPacket_call :: "PIFOPacket \<Rightarrow> string \<Rightarrow> (exn + 32 word) \<times> PIFOPacket" where
  "PIFOPacket_call packet field_name = (packet_field packet field_name, packet)"

text \<open>
  \<^verbatim>\<open>std::map::at\<close> as a call on the map: it never inserts, unlike
  \<^verbatim>\<open>operator[]\<close>.
\<close>

definition map_at_call :: "('k \<rightharpoonup> 'v) \<Rightarrow> 'k \<Rightarrow> (exn + 'v) \<times> ('k \<rightharpoonup> 'v)" where
  "map_at_call m k = (map_at m k, m)"

text \<open>
  \<^verbatim>\<open>LookUpTable::lookup\<close> (line 70): the call on the packet, then the call on the
  table with the value read.
\<close>

definition lookup_call ::
  "LookUpTable \<Rightarrow> PIFOPacket \<Rightarrow> (exn + NextHop) \<times> LookUpTable \<times> PIFOPacket" where
  "lookup_call lut packet =
     (case PIFOPacket_call packet (look_up_field_name lut) of
        (Inl e, packet') \<Rightarrow> (Inl e, lut, packet')
      | (Inr v, packet') \<Rightarrow>
          (case map_at_call (look_up_table lut) v of
             (r, table') \<Rightarrow> (r, lut\<lparr>look_up_table := table'\<rparr>, packet')))"

text \<open>
  \<^verbatim>\<open>PIFOPipelineStage::find_next_hop\<close> (line 147): the call on the stage's table.
\<close>

definition find_next_hop_call ::
  "('pq, 'cq, 'prio, 'env) PIFOPipelineStage \<Rightarrow> PIFOPacket \<Rightarrow>
   (exn + NextHop) \<times> ('pq, 'cq, 'prio, 'env) PIFOPipelineStage \<times> PIFOPacket" where
  "find_next_hop_call st packet =
     (case lookup_call (next_hop_lut st) packet of
        (r, lut', packet') \<Rightarrow> (r, st\<lparr>next_hop_lut := lut'\<rparr>, packet'))"

section \<open>The life of a stage\<close>

text \<open>
  The size of the bank that a queue type selects, as both methods select it: the priority-queue
  bank for \<open>PRIORITY_QUEUE\<close>, the calendar-queue bank otherwise.
\<close>

definition bank_size :: "('pq, 'cq, 'prio, 'env) PIFOPipelineStage \<Rightarrow> QueueType \<Rightarrow> nat" where
  "bank_size st qtype =
     (if qtype = PRIORITY_QUEUE then length (priority_queue_bank st)
      else length (calendar_queue_bank st))"

text \<open>
  A driver owns a stage and calls its three public methods, one after the other. A call is
  one of the three with its arguments; its outcome is the value returned or the exception
  raised. Neither \<^verbatim>\<open>deq\<close> nor \<^verbatim>\<open>find_next_hop\<close> reaches the priority
  function, so the environment goes through them as it is. An exception ends the call, not the
  stage: the driver may go on calling.
\<close>

datatype call =
    Call_enq QueueType "32 word" PIFOPacket "32 word"
  | Call_deq QueueType "32 word" "32 word"
  | Call_find_next_hop PIFOPacket

datatype outcome =
    Out_enq "exn + unit"
  | Out_deq "exn + PIFOPacket option"
  | Out_find_next_hop "exn + NextHop"

fun call_stage ::
  "('pq, 'cq, 'prio) queue_ops \<Rightarrow> call \<Rightarrow> ('pq, 'cq, 'prio, 'env) PIFOPipelineStage \<times> 'env \<Rightarrow>
   outcome \<times> ('pq, 'cq, 'prio, 'env) PIFOPipelineStage \<times> 'env" where
  "call_stage ops (Call_enq qtype qid packet tick) (st, env) =
     (case enq ops st qtype qid packet tick env of (r, st', env') \<Rightarrow> (Out_enq r, st', env'))"
| "call_stage ops (Call_deq qtype qid tick) (st, env) =
     (case deq ops st qtype qid tick of (r, st') \<Rightarrow> (Out_deq r, st', env))"
| "call_stage ops (Call_find_next_hop packet) (st, env) =
     (case find_next_hop_call st packet of (r, st', packet') \<Rightarrow> (Out_find_next_hop r, st', env))"

fun run_calls ::
  "('pq, 'cq, 'prio) queue_ops \<Rightarrow> call list \<Rightarrow> ('pq, 'cq, 'prio, 'env) PIFOPipelineStage \<times> 'env \<Rightarrow>
   ('pq, 'cq, 'prio, 'env) PIFOPipelineStage \<times> 'env" where
  "run_calls ops [] s = s"
| "run_calls ops (c # cs) s = run_calls ops cs (snd (call_stage ops c s))"

section \<open>A sample configuration\<close>

text \<open>
  The theorems below hold for every queue discipline, priority function and table. To evaluate
  them at concrete inputs, here is one choice of each: both disciplines keep their elements in
  arrival order and serve the oldest; the priority function reads the field \<open>prio\<close> (0 when the
  packet has none), never throws, and counts its own evaluations in the environment; the table is the one of the
  end-to-end scenario of the specification, on the field \<open>class\<close>.
\<close>

definition sample_enq ::
  "PIFOPacket \<Rightarrow> 32 word \<Rightarrow> 32 word \<Rightarrow> (PIFOPacket \<times> 32 word \<times> 32 word) list \<Rightarrow>
   (exn + unit) \<times> (PIFOPacket \<times> 32 word \<times> 32 word) list" where
  "sample_enq packet prio tick q = (Inr (), q @ [(packet, prio, tick)])"

definition sample_deq ::
  "32 word \<Rightarrow> (PIFOPacket \<times> 32 word \<times> 32 word) list \<Rightarrow>
   (exn + PIFOPacket option) \<times> (PIFOPacket \<times> 32 word \<times> 32 word) list" where
  "sample_deq tick q = (case q of [] \<Rightarrow> (Inr None, []) | x # xs \<Rightarrow> (Inr (Some (fst x)), xs))"

definition sample_ops ::
  "((PIFOPacket \<times> 32 word \<times> 32 word) list, (PIFOPacket \<times> 32 word \<times> 32 word) list, 32 word)
   queue_ops" where
  "sample_ops =
     \<lparr>PriorityQueue_new = [], PriorityQueue_enq = sample_enq, PriorityQueue_deq = sample_deq,
      CalendarQueue_new = [], CalendarQueue_enq = sample_enq, CalendarQueue_deq = sample_deq\<rparr>"

definition sample_prio :: "(PIFOPacket \<Rightarrow> nat \<Rightarrow> (exn + 32 word) \<times> nat) option" where
  "sample_prio =
     Some (\<lambda>packet calls. (Inr (case packet ''prio'' of None \<Rightarrow> 0 | Some v \<Rightarrow> v), Suc calls))"

definition sample_lut :: "(32 word \<times> NextHop) list" where
  "sample_lut =
     [(0, \<lparr>op = TRANSMIT, pifo_arguments = []\<rparr>),
      (1, \<lparr>op = ENQ,
           pifo_arguments = [\<lparr>stage_id = 1, q_type = CALENDAR_QUEUE, queue_id = 0\<rparr>]\<rparr>)]"

definition sample_stage ::
  "((PIFOPacket \<times> 32 word \<times> 32 word) list, (PIFOPacket \<times> 32 word \<times> 32 word) list,
    32 word, nat) PIFOPipelineStage" where
  "sample_stage = PIFOPipelineStage_ctor sample_ops 1 1 ''class'' sample_lut sample_prio"

definition sample_packet :: PIFOPacket where
  "sample_packet = [''class'' \<mapsto> 1, ''prio'' \<mapsto> 3]"

text \<open>
  Two more stages, like the sample stage but for the priority function: one is constructed with
  an empty \<^verbatim>\<open>std::function\<close>, the other with a target that counts its evaluation and
  throws.
\<close>

definition empty_prio_stage ::
  "((PIFOPacket \<times> 32 word \<times> 32 word) list, (PIFOPacket \<times> 32 word \<times> 32 word) list,
    32 word, nat) PIFOPipelineStage" where
  "empty_prio_stage = PIFOPipelineStage_ctor sample_ops 1 1 ''class'' sample_lut None"

definition throwing_prio_stage ::
  "((PIFOPacket \<times> 32 word \<times> 32 word) list, (PIFOPacket \<times> 32 word \<times> 32 word) list,
    32 word, nat) PIFOPipelineStage" where
  "throwing_prio_stage =
     PIFOPipelineStage_ctor sample_ops 1 1 ''class'' sample_lut
       (Some (\<lambda>packet calls. (Inl (prio_exn ''no priority''), Suc calls)))"

section \<open>Auxiliary facts\<close>

lemma vector_at_in_range: "unat n < length v \<Longrightarrow> vector_at v n = Inr (v ! unat n)"
  by (simp add: vector_at_def)

lemma vector_at_out_of_range: "length v \<le> unat n \<Longrightarrow> vector_at v n = Inl std_out_of_range"
  by (simp add: vector_at_def)

lemma enq_bank_sizes:
  "length (priority_queue_bank (fst (snd (enq ops st qtype qid packet tick env)))) =
     length (priority_queue_bank st)"
  "length (calendar_queue_bank (fst (snd (enq ops st qtype qid packet tick env)))) =
     length (calendar_queue_bank st)"
  by (simp_all add: enq_def split: prod.splits sum.splits)

lemma deq_bank_sizes:
  "length (priority_queue_bank (snd (deq ops st qtype qid tick))) =
     length (priority_queue_bank st)"
  "length (calendar_queue_bank (snd (deq ops st qtype qid tick))) =
     length (calendar_queue_bank st)"
  by (simp_all add: deq_def split: prod.splits sum.splits)

lemma find_next_hop_call_bank_sizes:
  "length (priority_queue_bank (fst (snd (find_next_hop_call st packet)))) =
     length (priority_queue_bank st)"
  "length (calendar_queue_bank (fst (snd (find_next_hop_call st packet)))) =
     length (calendar_queue_bank st)"
  by (simp_all add: find_next_hop_call_def case_prod_beta)

lemma call_stage_bank_sizes:
  "length (priority_queue_bank (fst (snd (call_stage ops c (st, env))))) =
     length (priority_queue_bank st)"
  "length (calendar_queue_bank (fst (snd (call_stage ops c (st, env))))) =
     length (calendar_queue_bank st)"
  by (cases c; simp add: case_prod_beta enq_bank_sizes deq_bank_sizes
        find_next_hop_call_bank_sizes)+

lemma run_calls_bank_sizes:
  "length (priority_queue_bank (fst (run_calls ops cs s))) = length (priority_queue_bank (fst s))
   \<and> length (calendar_queue_bank (fst (run_calls ops cs s))) = length (calendar_queue_bank (fst s))"
proof (induction cs arbitrary: s)
  case Nil
  show ?case by simp
next
  case (Cons c cs)
  obtain st env where s: "s = (st, env)" by (cases s)
  show ?case
    using Cons.IH [of "snd (call_stage ops c s)"] call_stage_bank_sizes [of ops c st env]
    by (simp add: s)
qed

lemma sample_stage_banks:
  "priority_queue_bank sample_stage = [[]]" "calendar_queue_bank sample_stage = [[]]"
  by (simp_all add: sample_stage_def PIFOPipelineStage_ctor_def sample_ops_def)

lemma sample_stage_lut:
  "look_up_field_name (next_hop_lut sample_stage) = ''class''"
  "look_up_table (next_hop_lut sample_stage) = map_of sample_lut"
  by (simp_all add: sample_stage_def PIFOPipelineStage_ctor_def LookUpTable_ctor_def)

lemma sample_stage_prio: "prio_computer sample_stage = sample_prio"
  by (simp add: sample_stage_def PIFOPipelineStage_ctor_def)

lemma empty_prio_stage_fields:
  "priority_queue_bank empty_prio_stage = [[]]" "calendar_queue_bank empty_prio_stage = [[]]"
  "prio_computer empty_prio_stage = None"
  by (simp_all add: empty_prio_stage_def PIFOPipelineStage_ctor_def sample_ops_def)

lemma throwing_prio_stage_fields:
  "priority_queue_bank throwing_prio_stage = [[]]" "calendar_queue_bank throwing_prio_stage = [[]]"
  "prio_computer throwing_prio_stage =
     Some (\<lambda>packet calls. (Inl (prio_exn ''no priority''), Suc calls))"
  by (simp_all add: throwing_prio_stage_def PIFOPipelineStage_ctor_def sample_ops_def)

section \<open>Enqueue and dequeue dispatch\<close>

text \<open>
  C1, as stated, at a stage constructed with an empty priority function: the \<open>queue_id\<close> is
  within the calendar-queue bank, yet \<open>enq\<close> fails with \<^verbatim>\<open>std::bad_function_call\<close> at
  the computation of the priority and hands nothing to the queue, which stays empty.
\<close>

theorem enq_forwards_counterexample:
  "unat (0 :: 32 word) < bank_size empty_prio_stage CALENDAR_QUEUE \<and>
   enq sample_ops empty_prio_stage CALENDAR_QUEUE 0 sample_packet 5 0 =
     (Inl std_bad_function_call, empty_prio_stage, 0) \<and>
   calendar_queue_bank
     (fst (snd (enq sample_ops empty_prio_stage CALENDAR_QUEUE 0 sample_packet 5 0))) = [[]]"
  by (simp add: bank_size_def enq_def call_prio_computer_def empty_prio_stage_fields)

text \<open>
  C1, amended. For every stage, queue type, \<open>queue_id\<close> within the size of the selected bank,
  packet and tick: when the stage's priority function returns a priority for the packet, \<open>enq\<close>
  hands the packet, that priority and the tick to the \<open>enq\<close> of the queue at index \<open>queue_id\<close> of
  the bank that the queue type selects (the priority-queue bank for \<open>PRIORITY_QUEUE\<close>, the
  calendar-queue bank for \<open>CALENDAR_QUEUE\<close>), and returns no value: the outcome is that of the
  queue's \<open>enq\<close>. When the priority function is empty or throws, \<open>enq\<close> fails with that
  exception and the stage is as it was.
\<close>

theorem enq_forwards:
  assumes "unat qid < bank_size st qtype"
  shows "enq ops st qtype qid packet tick env =
     (case call_prio_computer (prio_computer st) packet env of
        (Inl e, env') \<Rightarrow> (Inl e, st, env')
      | (Inr prio, env') \<Rightarrow>
          (case qtype of
             PRIORITY_QUEUE \<Rightarrow>
               (case PriorityQueue_enq ops packet prio tick (priority_queue_bank st ! unat qid) of
                  (r, q') \<Rightarrow>
                    (r, st\<lparr>priority_queue_bank := (priority_queue_bank st)[unat qid := q']\<rparr>,
                     env'))
           | CALENDAR_QUEUE \<Rightarrow>
               (case CalendarQueue_enq ops packet prio tick (calendar_queue_bank st ! unat qid) of
                  (r, q') \<Rightarrow>
                    (r, st\<lparr>calendar_queue_bank := (calendar_queue_bank st)[unat qid := q']\<rparr>,
                     env'))))"
proof (cases qtype)
  case PRIORITY_QUEUE
  with assms have "unat qid < length (priority_queue_bank st)"
    by (simp add: bank_size_def)
  then show ?thesis
    using PRIORITY_QUEUE
    by (simp add: enq_def vector_at_in_range split: prod.splits sum.splits)
next
  case CALENDAR_QUEUE
  with assms have "unat qid < length (calendar_queue_bank st)"
    by (simp add: bank_size_def)
  then show ?thesis
    using CALENDAR_QUEUE
    by (simp add: enq_def vector_at_in_range split: prod.splits sum.splits)
qed

text \<open>
  At the sample stage: a packet with priority 3, enqueued at tick 5 into calendar queue 0,
  arrives there with that priority and tick, and the priority-queue bank stays empty. At the stage
  whose priority function throws, the same call fails with that exception after one evaluation.
\<close>

theorem enq_forwards_witness:
  "unat (0 :: 32 word) < bank_size sample_stage CALENDAR_QUEUE \<and>
   fst (enq sample_ops sample_stage CALENDAR_QUEUE 0 sample_packet 5 0) = Inr () \<and>
   calendar_queue_bank (fst (snd (enq sample_ops sample_stage CALENDAR_QUEUE 0 sample_packet 5 0)))
     = [[(sample_packet, 3, 5)]] \<and>
   priority_queue_bank (fst (snd (enq sample_ops sample_stage CALENDAR_QUEUE 0 sample_packet 5 0)))
     = [[]] \<and>
   unat (0 :: 32 word) < bank_size throwing_prio_stage CALENDAR_QUEUE \<and>
   enq sample_ops throwing_prio_stage CALENDAR_QUEUE 0 sample_packet 5 0 =
     (Inl (prio_exn ''no priority''), throwing_prio_stage, 1)"
proof -
  have h: "unat (0 :: 32 word) < bank_size sample_stage CALENDAR_QUEUE"
    by (simp add: bank_size_def sample_stage_banks)
  have h': "unat (0 :: 32 word) < bank_size throwing_prio_stage CALENDAR_QUEUE"
    by (simp add: bank_size_def throwing_prio_stage_fields)
  show ?thesis
    using h h'
      enq_forwards [where ops = sample_ops and st = sample_stage and qtype = CALENDAR_QUEUE
        and qid = 0 and packet = sample_packet and tick = 5 and env = "0 :: nat"]
      enq_forwards [where ops = sample_ops and st = throwing_prio_stage and qtype = CALENDAR_QUEUE
        and qid = 0 and packet = sample_packet and tick = 5 and env = "0 :: nat"]
    by (simp add: sample_stage_banks sample_stage_prio sample_ops_def sample_prio_def
        sample_enq_def sample_packet_def call_prio_computer_def throwing_prio_stage_fields)
qed

text \<open>
  C2. For every stage, queue type, \<open>queue_id\<close> within the size of the selected bank and tick,
  \<open>deq\<close> calls the \<open>deq\<close> of the queue at index \<open>queue_id\<close> of the selected bank and returns
  that queue's optional result as it is. Neither the priority function nor the look-up table takes
  part: with any other function and any other table in their place, the result and both banks
  come out the same.
\<close>

theorem deq_forwards:
  assumes "unat qid < bank_size st qtype"
  shows "deq ops st qtype qid tick =
     (case qtype of
        PRIORITY_QUEUE \<Rightarrow>
          (case PriorityQueue_deq ops tick (priority_queue_bank st ! unat qid) of
             (r, q') \<Rightarrow> (r, st\<lparr>priority_queue_bank := (priority_queue_bank st)[unat qid := q']\<rparr>))
      | CALENDAR_QUEUE \<Rightarrow>
          (case CalendarQueue_deq ops tick (calendar_queue_bank st ! unat qid) of
             (r, q') \<Rightarrow> (r, st\<lparr>calendar_queue_bank := (calendar_queue_bank st)[unat qid := q']\<rparr>)))
   \<and> deq ops (st\<lparr>next_hop_lut := lut, prio_computer := f\<rparr>) qtype qid tick =
     (case deq ops st qtype qid tick of
        (r, st') \<Rightarrow> (r, st'\<lparr>next_hop_lut := lut, prio_computer := f\<rparr>))"
proof (cases qtype)
  case PRIORITY_QUEUE
  with assms have "unat qid < length (priority_queue_bank st)"
    by (simp add: bank_size_def)
  then show ?thesis
    using PRIORITY_QUEUE by (simp add: deq_def vector_at_in_range split: prod.splits)
next
  case CALENDAR_QUEUE
  with assms have "unat qid < length (calendar_queue_bank st)"
    by (simp add: bank_size_def)
  then show ?thesis
    using CALENDAR_QUEUE by (simp add: deq_def vector_at_in_range split: prod.splits)
qed

text \<open>
  At a stage whose priority queue 0 holds one packet: \<open>deq\<close> returns that packet and empties the
  queue, also when the table and the priority function are replaced.
\<close>

theorem deq_forwards_witness:
  "unat (0 :: 32 word) <
     bank_size (sample_stage\<lparr>priority_queue_bank := [[(sample_packet, 3, 5)]]\<rparr>) PRIORITY_QUEUE \<and>
   fst (deq sample_ops (sample_stage\<lparr>priority_queue_bank := [[(sample_packet, 3, 5)]]\<rparr>)
          PRIORITY_QUEUE 0 6) = Inr (Some sample_packet) \<and>
   priority_queue_bank
     (snd (deq sample_ops (sample_stage\<lparr>priority_queue_bank := [[(sample_packet, 3, 5)]]\<rparr>)
          PRIORITY_QUEUE 0 6)) = [[]] \<and>
   fst (deq sample_ops
          (sample_stage\<lparr>priority_queue_bank := [[(sample_packet, 3, 5)]],
             next_hop_lut := LookUpTable_ctor ''other'' [],
             prio_computer := Some (\<lambda>packet calls. (Inr 7, calls))\<rparr>)
          PRIORITY_QUEUE 0 6) = Inr (Some sample_packet)"
proof -
  have h: "unat (0 :: 32 word) <
     bank_size (sample_stage\<lparr>priority_queue_bank := [[(sample_packet, 3, 5)]]\<rparr>) PRIORITY_QUEUE"
    by (simp add: bank_size_def)
  show ?thesis
    using h deq_forwards [where ops = sample_ops and qid = 0 and qtype = PRIORITY_QUEUE and tick = 6
        and st = "sample_stage\<lparr>priority_queue_bank := [[(sample_packet, 3, 5)]]\<rparr>"
        and lut = "LookUpTable_ctor ''other'' []" and f = "Some (\<lambda>packet calls. (Inr 7, calls))"]
    by (simp add: sample_ops_def sample_deq_def)
qed

text \<open>
  C3, as stated, at a stage whose priority function throws: the \<open>queue_id\<close> is beyond the
  calendar-queue bank, and \<open>enq\<close> fails with the exception of the priority function, not with
  \<^verbatim>\<open>std::out_of_range\<close>, since the priority is computed before the bank is indexed.
\<close>

theorem out_of_range_fails_counterexample:
  "bank_size throwing_prio_stage CALENDAR_QUEUE \<le> unat (1 :: 32 word) \<and>
   fst (enq sample_ops throwing_prio_stage CALENDAR_QUEUE 1 sample_packet 5 0) =
     Inl (prio_exn ''no priority'') \<and>
   fst (enq sample_ops throwing_prio_stage CALENDAR_QUEUE 1 sample_packet 5 0) \<noteq>
     Inl std_out_of_range"
  by (simp add: bank_size_def enq_def call_prio_computer_def throwing_prio_stage_fields)

text \<open>
  C3, amended. Every call of \<open>deq\<close> whose \<open>queue_id\<close> is greater than or equal to the size of the
  bank selected by the queue type fails with \<^verbatim>\<open>std::out_of_range\<close>. Every such call of
  \<open>enq\<close> fails too: with \<^verbatim>\<open>std::out_of_range\<close> when the priority function returns a
  priority, and with the exception of the priority function (\<^verbatim>\<open>std::bad_function_call\<close>
  for an empty one) otherwise. The exception reaches the caller, and the stage, hence every queue
  of both banks, is as it was.
\<close>

theorem out_of_range_fails:
  assumes "bank_size st qtype \<le> unat qid"
  shows "fst (enq ops st qtype qid packet tick env) =
           (case fst (call_prio_computer (prio_computer st) packet env) of
              Inl e \<Rightarrow> Inl e
            | Inr prio \<Rightarrow> Inl std_out_of_range)
       \<and> fst (snd (enq ops st qtype qid packet tick env)) = st
       \<and> deq ops st qtype qid tick = (Inl std_out_of_range, st)"
proof (cases qtype)
  case PRIORITY_QUEUE
  with assms have "length (priority_queue_bank st) \<le> unat qid"
    by (simp add: bank_size_def)
  then show ?thesis
    using PRIORITY_QUEUE
    by (simp add: enq_def deq_def vector_at_out_of_range split: prod.splits sum.splits)
next
  case CALENDAR_QUEUE
  with assms have "length (calendar_queue_bank st) \<le> unat qid"
    by (simp add: bank_size_def)
  then show ?thesis
    using CALENDAR_QUEUE
    by (simp add: enq_def deq_def vector_at_out_of_range split: prod.splits sum.splits)
qed

text \<open>
  The sample stage has one calendar queue, so index 1 is out of range; its priority function
  returns a priority. The stage with the empty priority function fails at the same index with
  \<^verbatim>\<open>std::bad_function_call\<close>, and is unchanged as well.
\<close>

theorem out_of_range_fails_witness:
  "bank_size sample_stage CALENDAR_QUEUE \<le> unat (1 :: 32 word) \<and>
   fst (enq sample_ops sample_stage CALENDAR_QUEUE 1 sample_packet 5 0) = Inl std_out_of_range \<and>
   fst (snd (enq sample_ops sample_stage CALENDAR_QUEUE 1 sample_packet 5 0)) = sample_stage \<and>
   deq sample_ops sample_stage CALENDAR_QUEUE 1 5 = (Inl std_out_of_range, sample_stage) \<and>
   bank_size empty_prio_stage CALENDAR_QUEUE \<le> unat (1 :: 32 word) \<and>
   fst (enq sample_ops empty_prio_stage CALENDAR_QUEUE 1 sample_packet 5 0) =
     Inl std_bad_function_call \<and>
   fst (snd (enq sample_ops empty_prio_stage CALENDAR_QUEUE 1 sample_packet 5 0)) =
     empty_prio_stage"
proof -
  have h: "bank_size sample_stage CALENDAR_QUEUE \<le> unat (1 :: 32 word)"
    by (simp add: bank_size_def sample_stage_banks)
  have h': "bank_size empty_prio_stage CALENDAR_QUEUE \<le> unat (1 :: 32 word)"
    by (simp add: bank_size_def empty_prio_stage_fields)
  show ?thesis
    using h h'
      out_of_range_fails [where ops = sample_ops and st = sample_stage and qtype = CALENDAR_QUEUE
        and qid = 1 and packet = sample_packet and tick = 5 and env = "0 :: nat"]
      out_of_range_fails [where ops = sample_ops and st = empty_prio_stage
        and qtype = CALENDAR_QUEUE and qid = 1 and packet = sample_packet and tick = 5
        and env = "0 :: nat"]
    by (simp add: sample_stage_prio sample_prio_def call_prio_computer_def
        empty_prio_stage_fields)
qed

text \<open>
  C7. A call of \<open>enq\<close> addressed to a queue type and a \<open>queue_id\<close> changes at most the queue at
  that index of the selected bank: the other bank is the same list of queues as before, every
  queue at another index of either bank is unchanged, and no bank changes its length. The same
  holds for \<open>deq\<close>. This is so for every call, the successful ones among them.
\<close>

theorem enq_deq_frame:
  "(qtype = PRIORITY_QUEUE \<longrightarrow>
      calendar_queue_bank (fst (snd (enq ops st qtype qid packet tick env))) = calendar_queue_bank st
      \<and> calendar_queue_bank (snd (deq ops st qtype qid tick)) = calendar_queue_bank st)
   \<and> (qtype = CALENDAR_QUEUE \<longrightarrow>
      priority_queue_bank (fst (snd (enq ops st qtype qid packet tick env))) = priority_queue_bank st
      \<and> priority_queue_bank (snd (deq ops st qtype qid tick)) = priority_queue_bank st)
   \<and> (\<forall>j. j \<noteq> unat qid \<longrightarrow>
      priority_queue_bank (fst (snd (enq ops st qtype qid packet tick env))) ! j =
        priority_queue_bank st ! j
      \<and> calendar_queue_bank (fst (snd (enq ops st qtype qid packet tick env))) ! j =
        calendar_queue_bank st ! j
      \<and> priority_queue_bank (snd (deq ops st qtype qid tick)) ! j = priority_queue_bank st ! j
      \<and> calendar_queue_bank (snd (deq ops st qtype qid tick)) ! j = calendar_queue_bank st ! j)
   \<and> length (priority_queue_bank (fst (snd (enq ops st qtype qid packet tick env)))) =
        length (priority_queue_bank st)
   \<and> length (calendar_queue_bank (fst (snd (enq ops st qtype qid packet tick env)))) =
        length (calendar_queue_bank st)
   \<and> length (priority_queue_bank (snd (deq ops st qtype qid tick))) =
        length (priority_queue_bank st)
   \<and> length (calendar_queue_bank (snd (deq ops st qtype qid tick))) =
        length (calendar_queue_bank st)"
  by (cases qtype) (simp_all add: enq_def deq_def split: prod.splits sum.splits)

text \<open>
  At a stage with two priority queues and one calendar queue: a successful \<open>enq\<close> into priority
  queue 0 changes that queue, and leaves priority queue 1 and the calendar-queue bank alone.
\<close>

theorem enq_deq_frame_witness:
  "PRIORITY_QUEUE = PRIORITY_QUEUE \<and> (1 :: nat) \<noteq> unat (0 :: 32 word) \<and>
   fst (enq sample_ops (sample_stage\<lparr>priority_queue_bank := [[], []]\<rparr>)
          PRIORITY_QUEUE 0 sample_packet 5 0) = Inr () \<and>
   priority_queue_bank
     (fst (snd (enq sample_ops (sample_stage\<lparr>priority_queue_bank := [[], []]\<rparr>)
          PRIORITY_QUEUE 0 sample_packet 5 0))) ! 0 = [(sample_packet, 3, 5)] \<and>
   priority_queue_bank
     (fst (snd (enq sample_ops (sample_stage\<lparr>priority_queue_bank := [[], []]\<rparr>)
          PRIORITY_QUEUE 0 sample_packet 5 0))) ! 1 = [[], []] ! 1 \<and>
   calendar_queue_bank
     (fst (snd (enq sample_ops (sample_stage\<lparr>priority_queue_bank := [[], []]\<rparr>)
          PRIORITY_QUEUE 0 sample_packet 5 0))) = [[]]"
proof -
  have h: "(1 :: nat) \<noteq> unat (0 :: 32 word)" by simp
  have s: "fst (enq sample_ops (sample_stage\<lparr>priority_queue_bank := [[], []]\<rparr>)
          PRIORITY_QUEUE 0 sample_packet 5 0) = Inr () \<and>
     priority_queue_bank
       (fst (snd (enq sample_ops (sample_stage\<lparr>priority_queue_bank := [[], []]\<rparr>)
          PRIORITY_QUEUE 0 sample_packet 5 0))) ! 0 = [(sample_packet, 3, 5)]"
    by (simp add: enq_def vector_at_def call_prio_computer_def sample_stage_prio sample_prio_def
        sample_ops_def sample_enq_def sample_packet_def)
  show ?thesis
    using h s enq_deq_frame [where ops = sample_ops and qtype = PRIORITY_QUEUE and qid = 0
        and st = "sample_stage\<lparr>priority_queue_bank := [[], []]\<rparr>"
        and packet = sample_packet and tick = 5 and env = "0 :: nat"]
    by (simp add: sample_stage_banks)
qed

text \<open>
  C9, as stated, at a stage constructed with an empty priority function: \<open>enq\<close> fails with
  \<^verbatim>\<open>std::bad_function_call\<close> and the environment is untouched. There is no priority
  function to apply, and none is applied.
\<close>

theorem prio_computer_called_once_counterexample:
  "prio_computer empty_prio_stage = None \<and>
   enq sample_ops empty_prio_stage PRIORITY_QUEUE 4 sample_packet 5 0 =
     (Inl std_bad_function_call, empty_prio_stage, 0)"
  by (simp add: enq_def call_prio_computer_def empty_prio_stage_fields)

text \<open>
  C9, amended. Every call of \<open>enq\<close> at a stage whose priority function is not empty evaluates
  that function on the packet exactly once: the environment after the call is the one that a single
  evaluation leaves behind. The evaluation comes before the bounds check: a call whose \<open>queue_id\<close>
  is out of range fails after that one evaluation, with \<^verbatim>\<open>std::out_of_range\<close> when the
  function returned a priority and with the function's own exception when it threw. At a stage
  whose priority function is empty, \<open>enq\<close> fails with \<^verbatim>\<open>std::bad_function_call\<close> and
  evaluates nothing.
\<close>

theorem prio_computer_called_once:
  "(\<forall>target. prio_computer st = Some target \<longrightarrow>
      snd (snd (enq ops st qtype qid packet tick env)) = snd (target packet env)
      \<and> (bank_size st qtype \<le> unat qid \<longrightarrow>
           enq ops st qtype qid packet tick env =
             ((case fst (target packet env) of
                 Inl e \<Rightarrow> Inl e
               | Inr prio \<Rightarrow> Inl std_out_of_range),
              st, snd (target packet env))))
   \<and> (prio_computer st = None \<longrightarrow>
        enq ops st qtype qid packet tick env = (Inl std_bad_function_call, st, env))"
  by (cases qtype)
     (auto simp: enq_def call_prio_computer_def bank_size_def vector_at_def
        split: prod.splits sum.splits)

text \<open>
  The sample priority function counts its evaluations: the count goes from 0 to 1 in a call
  that fails with \<^verbatim>\<open>std::out_of_range\<close>, and in a call that succeeds. The throwing
  function is evaluated once as well, and the call fails with its exception.
\<close>

theorem prio_computer_called_once_witness:
  "prio_computer sample_stage = sample_prio \<and>
   bank_size sample_stage PRIORITY_QUEUE \<le> unat (4 :: 32 word) \<and>
   enq sample_ops sample_stage PRIORITY_QUEUE 4 sample_packet 5 0 =
     (Inl std_out_of_range, sample_stage, 1) \<and>
   snd (snd (enq sample_ops sample_stage PRIORITY_QUEUE 0 sample_packet 5 0)) = 1 \<and>
   bank_size throwing_prio_stage PRIORITY_QUEUE \<le> unat (4 :: 32 word) \<and>
   enq sample_ops throwing_prio_stage PRIORITY_QUEUE 4 sample_packet 5 0 =
     (Inl (prio_exn ''no priority''), throwing_prio_stage, 1) \<and>
   prio_computer empty_prio_stage = None \<and>
   enq sample_ops empty_prio_stage PRIORITY_QUEUE 0 sample_packet 5 7 =
     (Inl std_bad_function_call, empty_prio_stage, 7)"
proof -
  have h: "bank_size sample_stage PRIORITY_QUEUE \<le> unat (4 :: 32 word)"
    by (simp add: bank_size_def sample_stage_banks)
  have h': "bank_size throwing_prio_stage PRIORITY_QUEUE \<le> unat (4 :: 32 word)"
    by (simp add: bank_size_def throwing_prio_stage_fields)
  show ?thesis
    using h h'
      prio_computer_called_once [where ops = sample_ops and st = sample_stage
        and qtype = PRIORITY_QUEUE and qid = 4 and packet = sample_packet and tick = 5
        and env = "0 :: nat"]
      prio_computer_called_once [where ops = sample_ops and st = sample_stage
        and qtype = PRIORITY_QUEUE and qid = 0 and packet = sample_packet and tick = 5
        and env = "0 :: nat"]
      prio_computer_called_once [where ops = sample_ops and st = throwing_prio_stage
        and qtype = PRIORITY_QUEUE and qid = 4 and packet = sample_packet and tick = 5
        and env = "0 :: nat"]
      prio_computer_called_once [where ops = sample_ops and st = empty_prio_stage
        and qtype = PRIORITY_QUEUE and qid = 0 and packet = sample_packet and tick = 5
        and env = "7 :: nat"]
    by (simp add: sample_stage_prio sample_prio_def throwing_prio_stage_fields
        empty_prio_stage_fields)
qed

section \<open>Routing\<close>

text \<open>
  C4. For every packet that exposes the field the look-up table is configured to read,
  \<open>find_next_hop\<close> returns the \<open>NextHop\<close> that the table maps the field's value to whenever the
  value is a key of the table, and fails whenever the value is absent from the table. The failure
  is the \<^verbatim>\<open>std::out_of_range\<close> of \<^verbatim>\<open>std::map::at\<close>: that is the "no route"
  condition.
\<close>

theorem find_next_hop_table:
  assumes "packet (look_up_field_name (next_hop_lut st)) = Some v"
  shows "(\<forall>nh. look_up_table (next_hop_lut st) v = Some nh \<longrightarrow> find_next_hop st packet = Inr nh)
       \<and> (v \<notin> dom (look_up_table (next_hop_lut st)) \<longrightarrow>
            find_next_hop st packet = Inl std_out_of_range)"
  using assms
  by (auto simp: find_next_hop_def lookup_def packet_field_def map_at_def domIff)

text \<open>
  At the sample stage: class 1 is routed to calendar queue 0 of stage 1, class 7 has no route.
\<close>

theorem find_next_hop_table_witness:
  "sample_packet (look_up_field_name (next_hop_lut sample_stage)) = Some 1 \<and>
   look_up_table (next_hop_lut sample_stage) 1 =
     Some \<lparr>op = ENQ,
           pifo_arguments = [\<lparr>stage_id = 1, q_type = CALENDAR_QUEUE, queue_id = 0\<rparr>]\<rparr> \<and>
   find_next_hop sample_stage sample_packet =
     Inr \<lparr>op = ENQ,
          pifo_arguments = [\<lparr>stage_id = 1, q_type = CALENDAR_QUEUE, queue_id = 0\<rparr>]\<rparr> \<and>
   [''class'' \<mapsto> 7 :: 32 word] (look_up_field_name (next_hop_lut sample_stage)) = Some 7 \<and>
   7 \<notin> dom (look_up_table (next_hop_lut sample_stage)) \<and>
   find_next_hop sample_stage [''class'' \<mapsto> 7] = Inl std_out_of_range"
proof -
  have h1: "sample_packet (look_up_field_name (next_hop_lut sample_stage)) = Some 1"
    by (simp add: sample_stage_lut sample_packet_def)
  have t1: "look_up_table (next_hop_lut sample_stage) 1 =
     Some \<lparr>op = ENQ,
           pifo_arguments = [\<lparr>stage_id = 1, q_type = CALENDAR_QUEUE, queue_id = 0\<rparr>]\<rparr>"
    by (simp add: sample_stage_lut sample_lut_def)
  have h2: "[''class'' \<mapsto> 7 :: 32 word] (look_up_field_name (next_hop_lut sample_stage)) = Some 7"
    by (simp add: sample_stage_lut)
  have t2: "7 \<notin> dom (look_up_table (next_hop_lut sample_stage))"
    by (simp add: sample_stage_lut sample_lut_def domIff)
  show ?thesis
    using h1 t1 h2 t2 find_next_hop_table [where packet = sample_packet and st = sample_stage and v = 1]
      find_next_hop_table [where packet = "[''class'' \<mapsto> 7]" and st = sample_stage and v = 7]
    by simp
qed

text \<open>
  C5. For every packet that does not expose the field the look-up table is configured to read,
  \<open>find_next_hop\<close> fails with the "missing field" condition. That condition differs from the
  one raised for any packet whose field value is absent from the table, which is
  \<^verbatim>\<open>std::out_of_range\<close>: a caller can tell the two failures apart.
\<close>

theorem find_next_hop_missing_field:
  assumes "packet (look_up_field_name (next_hop_lut st)) = None"
  shows "find_next_hop st packet = Inl missing_field
       \<and> (\<forall>packet' v.
             packet' (look_up_field_name (next_hop_lut st)) = Some v \<longrightarrow>
             v \<notin> dom (look_up_table (next_hop_lut st)) \<longrightarrow>
               find_next_hop st packet' = Inl std_out_of_range
               \<and> find_next_hop st packet' \<noteq> find_next_hop st packet)"
  using assms
  by (auto simp: find_next_hop_def lookup_def packet_field_def map_at_def domIff)

text \<open>
  At the sample stage: a packet without the field \<open>class\<close>, and a packet of class 7, which the
  table does not have.
\<close>

theorem find_next_hop_missing_field_witness:
  "[''prio'' \<mapsto> 3 :: 32 word] (look_up_field_name (next_hop_lut sample_stage)) = None \<and>
   find_next_hop sample_stage [''prio'' \<mapsto> 3] = Inl missing_field \<and>
   [''class'' \<mapsto> 7 :: 32 word] (look_up_field_name (next_hop_lut sample_stage)) = Some 7 \<and>
   7 \<notin> dom (look_up_table (next_hop_lut sample_stage)) \<and>
   find_next_hop sample_stage [''class'' \<mapsto> 7] = Inl std_out_of_range \<and>
   find_next_hop sample_stage [''class'' \<mapsto> 7] \<noteq> find_next_hop sample_stage [''prio'' \<mapsto> 3]"
proof -
  have h1: "[''prio'' \<mapsto> 3 :: 32 word] (look_up_field_name (next_hop_lut sample_stage)) = None"
    by (simp add: sample_stage_lut)
  have h2: "[''class'' \<mapsto> 7 :: 32 word] (look_up_field_name (next_hop_lut sample_stage)) = Some 7"
    by (simp add: sample_stage_lut)
  have h3: "7 \<notin> dom (look_up_table (next_hop_lut sample_stage))"
    by (simp add: sample_stage_lut sample_lut_def domIff)
  have all: "find_next_hop sample_stage [''prio'' \<mapsto> 3] = Inl missing_field
       \<and> (\<forall>packet' v.
             packet' (look_up_field_name (next_hop_lut sample_stage)) = Some v \<longrightarrow>
             v \<notin> dom (look_up_table (next_hop_lut sample_stage)) \<longrightarrow>
               find_next_hop sample_stage packet' = Inl std_out_of_range
               \<and> find_next_hop sample_stage packet' \<noteq>
                   find_next_hop sample_stage [''prio'' \<mapsto> 3])"
    using h1 by (rule find_next_hop_missing_field)
  from all h2 h3 have
    "find_next_hop sample_stage [''class'' \<mapsto> 7] = Inl std_out_of_range
     \<and> find_next_hop sample_stage [''class'' \<mapsto> 7] \<noteq> find_next_hop sample_stage [''prio'' \<mapsto> 3]"
    by blast
  with all h1 h2 h3 show ?thesis by blast
qed

text \<open>
  C6. A call of \<open>find_next_hop\<close> changes nothing. Taken as a call on the stage with a reference to
  the packet, it hands back the stage it was called on (its look-up table and every queue of both
  banks) and the packet it was given, both as they were, whether it returns a \<open>NextHop\<close> or fails;
  and its outcome is the value of \<open>find_next_hop\<close>.
\<close>

theorem find_next_hop_mutates_nothing:
  "find_next_hop_call st packet = (find_next_hop st packet, st, packet)"
proof (cases "packet (look_up_field_name (next_hop_lut st))")
  case None
  then show ?thesis
    by (simp add: find_next_hop_call_def lookup_call_def PIFOPacket_call_def find_next_hop_def
        lookup_def packet_field_def)
next
  case (Some v)
  then show ?thesis
    by (simp add: find_next_hop_call_def lookup_call_def PIFOPacket_call_def map_at_call_def
        find_next_hop_def lookup_def packet_field_def)
qed

text \<open>
  At the sample stage: a call that returns a \<open>NextHop\<close>, a call that fails for a class without
  a route, and a call that fails on the empty packet.
\<close>

theorem find_next_hop_mutates_nothing_witness:
  "find_next_hop_call sample_stage sample_packet =
     (Inr \<lparr>op = ENQ,
           pifo_arguments = [\<lparr>stage_id = 1, q_type = CALENDAR_QUEUE, queue_id = 0\<rparr>]\<rparr>,
      sample_stage, sample_packet) \<and>
   find_next_hop_call sample_stage [''class'' \<mapsto> 7] =
     (Inl std_out_of_range, sample_stage, [''class'' \<mapsto> 7]) \<and>
   find_next_hop_call sample_stage Map.empty = (Inl missing_field, sample_stage, Map.empty)"
  using find_next_hop_mutates_nothing [where st = sample_stage and packet = sample_packet]
    find_next_hop_mutates_nothing [where st = sample_stage and packet = "[''class'' \<mapsto> 7]"]
    find_next_hop_mutates_nothing [where st = sample_stage and packet = Map.empty]
  by (simp add: find_next_hop_def lookup_def packet_field_def map_at_def sample_stage_lut
      sample_lut_def sample_packet_def)

text \<open>
  C10. \<open>find_next_hop\<close> depends on the packet through the value of the configured look-up field
  alone: two packets that agree on that field get the same \<open>NextHop\<close> or fail with the same
  condition, whatever their other fields are.
\<close>

theorem find_next_hop_field_only:
  assumes "packet1 (look_up_field_name (next_hop_lut st)) =
           packet2 (look_up_field_name (next_hop_lut st))"
  shows "find_next_hop st packet1 = find_next_hop st packet2"
  using assms by (simp add: find_next_hop_def lookup_def packet_field_def)

text \<open>
  Two packets of class 1 that differ in every other field.
\<close>

theorem find_next_hop_field_only_witness:
  "sample_packet (look_up_field_name (next_hop_lut sample_stage)) =
     [''class'' \<mapsto> 1 :: 32 word, ''prio'' \<mapsto> 9, ''flow'' \<mapsto> 4]
       (look_up_field_name (next_hop_lut sample_stage)) \<and>
   find_next_hop sample_stage sample_packet =
     find_next_hop sample_stage [''class'' \<mapsto> 1, ''prio'' \<mapsto> 9, ''flow'' \<mapsto> 4]"
proof -
  have h: "sample_packet (look_up_field_name (next_hop_lut sample_stage)) =
     [''class'' \<mapsto> 1 :: 32 word, ''prio'' \<mapsto> 9, ''flow'' \<mapsto> 4]
       (look_up_field_name (next_hop_lut sample_stage))"
    by (simp add: sample_stage_lut sample_packet_def)
  show ?thesis
    using h find_next_hop_field_only [where ?packet1.0 = sample_packet and st = sample_stage
        and ?packet2.0 = "[''class'' \<mapsto> 1, ''prio'' \<mapsto> 9, ''flow'' \<mapsto> 4]"]
    by blast
qed

section \<open>Bank sizes\<close>

text \<open>
  C8. The constructor fixes the sizes of the two banks as \<^verbatim>\<open>num_prio_queues\<close> and
  \<^verbatim>\<open>num_cal_queues\<close>, and they stay so for the whole life of the stage: after any sequence
  of calls of \<open>enq\<close>, \<open>deq\<close> and \<open>find_next_hop\<close>, successful or not, each bank has the length it
  was constructed with.
\<close>

theorem bank_sizes_fixed:
  "length (priority_queue_bank
     (fst (run_calls ops cs
        (PIFOPipelineStage_ctor ops num_prio_queues num_cal_queues lut_field_name lut_initializer
           t_prio_computer, env)))) = unat num_prio_queues
   \<and> length (calendar_queue_bank
     (fst (run_calls ops cs
        (PIFOPipelineStage_ctor ops num_prio_queues num_cal_queues lut_field_name lut_initializer
           t_prio_computer, env)))) = unat num_cal_queues"
  using run_calls_bank_sizes [of ops cs
      "(PIFOPipelineStage_ctor ops num_prio_queues num_cal_queues lut_field_name lut_initializer
           t_prio_computer, env)"]
  by (simp add: PIFOPipelineStage_ctor_def)

text \<open>
  A stage built with two priority queues and one calendar queue, after five calls (one of them
  out of range).
\<close>

theorem bank_sizes_fixed_witness:
  "length (priority_queue_bank
     (fst (run_calls sample_ops
        [Call_enq CALENDAR_QUEUE 0 sample_packet 0, Call_enq PRIORITY_QUEUE 3 sample_packet 1,
         Call_deq CALENDAR_QUEUE 0 3, Call_find_next_hop sample_packet, Call_deq CALENDAR_QUEUE 0 4]
        (PIFOPipelineStage_ctor sample_ops 2 1 ''class'' sample_lut sample_prio, 0)))) = 2
   \<and> length (calendar_queue_bank
     (fst (run_calls sample_ops
        [Call_enq CALENDAR_QUEUE 0 sample_packet 0, Call_enq PRIORITY_QUEUE 3 sample_packet 1,
         Call_deq CALENDAR_QUEUE 0 3, Call_find_next_hop sample_packet, Call_deq CALENDAR_QUEUE 0 4]
        (PIFOPipelineStage_ctor sample_ops 2 1 ''class'' sample_lut sample_prio, 0)))) = 1"
  using bank_sizes_fixed [where ops = sample_ops and num_prio_queues = 2 and num_cal_queues = 1
      and lut_field_name = "''class''" and lut_initializer = sample_lut
      and t_prio_computer = sample_prio and env = "0 :: nat"
      and cs = "[Call_enq CALENDAR_QUEUE 0 sample_packet 0, Call_enq PRIORITY_QUEUE 3 sample_packet 1,
         Call_deq CALENDAR_QUEUE 0 3, Call_find_next_hop sample_packet, Call_deq CALENDAR_QUEUE 0 4]"]
  by simp

end
